theory Spec2Isabelle
  imports Main
begin

section \<open>JSON values\<close>

text \<open>
  Request and response bodies are JSON texts. A body is modelled by its syntax tree; a
  body that is not a JSON text at all is \<open>None\<close> where a body is expected
  (\<open>json option\<close>). Numbers keep the one distinction the Go decoder makes when the
  target is an \<open>int\<close>: \<open>JInt n\<close> is a literal written as an optional minus sign and
  digits only, with value \<open>n\<close>; \<open>JFrac s\<close> is a literal \<open>s\<close> that has a fraction or
  an exponent part (\<open>30.0\<close>, \<open>3e1\<close>). An object is the list of its members in the
  order they are written, duplicates included; the key of a member is kept as the
  decoder reads it, since all that is done with a key is to match it with a field.

  The tree is generic in what a string value is. In a response it is the \<open>string\<close>
  that is encoded. In a request it is the string literal as it is written, a
  \<open>literal\<close>: the sequence of its pieces, where \<open>Byte b\<close> is a byte written as itself
  (or the character that one of the two-character escapes stands for) and \<open>Escape u\<close>
  is a four-digit hexadecimal escape of the 16-bit value \<open>u\<close>. What the decoder makes of
  a literal is \<open>unquote\<close> below.
\<close>

datatype 's json =
    JNull
  | JBool bool
  | JInt int
  | JFrac string
  | JString 's
  | JArray "'s json list"
  | JObject "(string \<times> 's json) list"

datatype piece = Byte char | Escape nat

type_synonym literal = "piece list"

section \<open>The data model of main.go\<close>

text \<open>
  The four structs of \<open>main.go\<close>. Go's \<open>int\<close> is 64 bits wide on the platforms the
  server runs on. No handler does arithmetic on an \<open>int\<close>, so the only place where the
  width matters is the decoder's range check, which is written out in
  \<open>object_member\<close>; the fields are therefore of type \<open>int\<close>. The field
  \<open>Data interface{}\<close> of \<open>SuccessResponse\<close> only ever holds a \<open>User\<close> or \<open>nil\<close>,
  hence \<open>User option\<close>. Field names that two structs share carry a prefix.
\<close>

record User =
  ID :: int
  Name :: string
  Email :: string
  Age :: int

record CreateUserRequest =
  Req_Name :: string
  Req_Email :: string
  Req_Age :: int

record ErrorResponse =
  Error :: string
  Message :: string

record SuccessResponse =
  Succ_Message :: string
  Data :: "User option"

text \<open>
  The JSON encoding of each struct, as its \<open>json:"..."\<close> tags fix it: members in field
  order under the tag names; \<open>data\<close> is tagged \<open>omitempty\<close> and is left out when the
  interface value is \<open>nil\<close>.
\<close>

definition marshal_User :: "User \<Rightarrow> string json" where
  "marshal_User u =
     JObject [(''id'', JInt (ID u)), (''name'', JString (Name u)),
              (''email'', JString (Email u)), (''age'', JInt (Age u))]"

definition marshal_Users :: "User list \<Rightarrow> string json" where
  "marshal_Users us = JArray (map marshal_User us)"

definition marshal_ErrorResponse :: "ErrorResponse \<Rightarrow> string json" where
  "marshal_ErrorResponse e =
     JObject [(''error'', JString (Error e)), (''message'', JString (Message e))]"

definition marshal_SuccessResponse :: "SuccessResponse \<Rightarrow> string json" where
  "marshal_SuccessResponse s =
     JObject ((''message'', JString (Succ_Message s)) #
              (case Data s of None \<Rightarrow> [] | Some u \<Rightarrow> [(''data'', marshal_User u)]))"

section \<open>The request context\<close>

text \<open>
  A handler receives a \<open>*fiber.Ctx\<close>: the request it reads and the response it
  writes. Of the request the handlers can observe the route parameters
  (\<open>c.Params\<close>) and, through \<open>c.BodyParser\<close>, the content type and the body; the
  query string is carried along although no handler reads it. The content type is kept
  as the decoder it selects: \<open>Json_type\<close> for a type that selects the JSON decoder,
  \<open>No_decoder\<close> for a type (or a missing header) that selects none. Form, multipart
  and XML bodies are outside this model.

  Of the response the model keeps the status code and the body. The server hands every
  request a context whose status is 200 and whose body is empty.
\<close>

datatype content_type = Json_type | No_decoder

record request =
  params :: "(string \<times> string) list"
  query :: "(string \<times> string) list"
  ctype :: content_type
  body :: "literal json option"

record Ctx =
  Request :: request
  resp_status :: nat
  resp_body :: "string json option"

definition AcquireCtx :: "request \<Rightarrow> Ctx" where
  "AcquireCtx r = \<lparr>Request = r, resp_status = 200, resp_body = None\<rparr>"

definition Params :: "Ctx \<Rightarrow> string \<Rightarrow> string" where
  \<comment> \<open>\<open>c.Params(key)\<close>: the value of the route parameter, the empty string when the
      route has no such parameter.\<close>
  "Params c key = (case map_of (params (Request c)) key of None \<Rightarrow> [] | Some v \<Rightarrow> v)"

definition Status :: "nat \<Rightarrow> Ctx \<Rightarrow> Ctx" where
  \<comment> \<open>\<open>c.Status(n)\<close> sets the status code and returns the context.\<close>
  "Status n c = c\<lparr>resp_status := n\<rparr>"

definition JSON :: "string json \<Rightarrow> Ctx \<Rightarrow> Ctx" where
  \<comment> \<open>\<open>c.JSON(v)\<close> writes the encoding of \<open>v\<close> as the body and leaves the status
      alone. Encoding a struct of strings and ints cannot fail, so the \<open>error\<close> it
      returns, which is what every handler returns, is always \<open>nil\<close>.\<close>
  "JSON v c = c\<lparr>resp_body := Some v\<rparr>"

type_synonym response = "nat \<times> string json option"

definition Response :: "Ctx \<Rightarrow> response" where
  "Response c = (resp_status c, resp_body c)"

section \<open>Body parsing\<close>

text \<open>
  \<open>c.BodyParser(&req)\<close> picks a decoder by content type and, for JSON, runs Go's
  \<open>json.Unmarshal\<close> on the body with the struct as target. Both are library code; the
  model follows their documented behaviour for a target with the three fields of
  \<open>CreateUserRequest\<close> (two strings and an int, tagged \<open>name\<close>, \<open>email\<close>, \<open>age\<close>):
  \<^item> a body that is not a JSON text is a syntax error, and nothing is stored; so is a
    body in which arrays and objects are nested more than 10000 deep, wherever in the
    body that is;
  \<^item> an object is decoded member by member, in order: a key selects the field whose
    tag it equals, ignoring ASCII case; a key that selects no field is skipped;
  \<^item> \<open>null\<close> leaves the field as it is; a string literal is unquoted and stored in a
    string field; an integer literal that fits the int is stored in the int field;
    every other value is a type mismatch, which is recorded while decoding goes on, and
    makes the call return an error at the end;
  \<^item> unquoting a literal yields well-formed UTF-8: an escape becomes the encoding of
    its code point, two escapes that form a surrogate pair that of the pair's code
    point, and an escape of a surrogate that is not part of a pair the encoding of
    U+FFFD; a byte below 128 is copied; at any other byte a rune is decoded from the
    bytes that follow (Go's \<open>utf8.DecodeRune\<close>) and encoded again
    (\<open>utf8.EncodeRune\<close>), which copies a well-formed sequence and turns a byte that
    starts none into U+FFFD;
  \<^item> at top level \<open>null\<close> leaves the struct as it is, and every value other than an
    object or \<open>null\<close> is a type mismatch;
  \<^item> a content type that selects no decoder gives \<open>ErrUnprocessableEntity\<close>.
\<close>

datatype parse_error = SyntaxError | UnmarshalTypeError | ErrUnprocessableEntity

definition maxNestingDepth :: nat where
  "maxNestingDepth = 10000"

fun depth :: "'s json \<Rightarrow> nat" where
  "depth (JArray vs) = Suc (foldr max (map depth vs) 0)"
| "depth (JObject ms) = Suc (foldr max (map (\<lambda>m. depth (snd m)) ms) 0)"
| "depth JNull = 0"
| "depth (JBool b) = 0"
| "depth (JInt n) = 0"
| "depth (JFrac s) = 0"
| "depth (JString s) = 0"

definition RuneError :: nat where
  "RuneError = 0xFFFD"

definition surrogate :: "nat \<Rightarrow> bool" where
  "surrogate r = (0xD800 \<le> r \<and> r < 0xE000)"

definition EncodeRune :: "nat \<Rightarrow> string" where
  "EncodeRune r =
     (if r < 0x80 then [char_of r]
      else if r < 0x800 then [char_of (0xC0 + r div 0x40), char_of (0x80 + r mod 0x40)]
      else
        (let r = (if 0x10FFFF < r \<or> surrogate r then RuneError else r) in
         if r < 0x10000 then
           [char_of (0xE0 + r div 0x1000), char_of (0x80 + r div 0x40 mod 0x40),
            char_of (0x80 + r mod 0x40)]
         else
           [char_of (0xF0 + r div 0x40000), char_of (0x80 + r div 0x1000 mod 0x40),
            char_of (0x80 + r div 0x40 mod 0x40), char_of (0x80 + r mod 0x40)]))"

definition first :: "nat \<Rightarrow> (nat \<times> nat \<times> nat) option" where
  \<comment> \<open>For a leading byte: the length of its sequence and the range its second byte
      must lie in; \<open>None\<close> for a byte that starts no sequence.\<close>
  "first p0 =
     (if 0xC2 \<le> p0 \<and> p0 \<le> 0xDF then Some (2, 0x80, 0xBF)
      else if p0 = 0xE0 then Some (3, 0xA0, 0xBF)
      else if 0xE1 \<le> p0 \<and> p0 \<le> 0xEC then Some (3, 0x80, 0xBF)
      else if p0 = 0xED then Some (3, 0x80, 0x9F)
      else if 0xEE \<le> p0 \<and> p0 \<le> 0xEF then Some (3, 0x80, 0xBF)
      else if p0 = 0xF0 then Some (4, 0x90, 0xBF)
      else if 0xF1 \<le> p0 \<and> p0 \<le> 0xF3 then Some (4, 0x80, 0xBF)
      else if p0 = 0xF4 then Some (4, 0x80, 0x8F)
      else None)"

definition DecodeRune :: "nat list \<Rightarrow> nat \<times> nat" where
  \<comment> \<open>The rune at the head of the bytes and the number of bytes it takes;
      \<open>(RuneError, 1)\<close> when the bytes start with no well-formed sequence.\<close>
  "DecodeRune p =
     (case p of
        [] \<Rightarrow> (RuneError, 0)
      | p0 # rest \<Rightarrow>
          if p0 < 0x80 then (p0, 1)
          else
            (case first p0 of
               None \<Rightarrow> (RuneError, 1)
             | Some (sz, lo, hi) \<Rightarrow>
                 if length p < sz then (RuneError, 1)
                 else
                   (let b1 = p ! 1 in
                    if b1 < lo \<or> hi < b1 then (RuneError, 1)
                    else if sz \<le> 2 then (p0 mod 0x20 * 0x40 + b1 mod 0x40, 2)
                    else
                      (let b2 = p ! 2 in
                       if b2 < 0x80 \<or> 0xBF < b2 then (RuneError, 1)
                       else if sz \<le> 3 then
                         (p0 mod 0x10 * 0x1000 + b1 mod 0x40 * 0x40 + b2 mod 0x40, 3)
                       else
                         (let b3 = p ! 3 in
                          if b3 < 0x80 \<or> 0xBF < b3 then (RuneError, 1)
                          else
                            (p0 mod 8 * 0x40000 + b1 mod 0x40 * 0x1000 + b2 mod 0x40 * 0x40
                               + b3 mod 0x40, 4))))))"

fun ahead :: "piece list \<Rightarrow> nat list" where
  \<comment> \<open>The bytes that are written next, up to the next escape or the end.\<close>
  "ahead (Byte b # ps) = of_char b # ahead ps"
| "ahead _ = []"

function (sequential) unquote :: "literal \<Rightarrow> string" where
  "unquote [] = []"
| "unquote (Escape u # Escape u' # ps) =
     (if 0xD800 \<le> u \<and> u < 0xDC00 \<and> 0xDC00 \<le> u' \<and> u' < 0xE000
      then EncodeRune (0x10000 + (u - 0xD800) * 0x400 + (u' - 0xDC00)) @ unquote ps
      else EncodeRune (if surrogate u then RuneError else u) @ unquote (Escape u' # ps))"
| "unquote (Escape u # ps) =
     EncodeRune (if surrogate u then RuneError else u) @ unquote ps"
| "unquote (Byte b # ps) =
     (if of_char b < (0x80 :: nat) then b # unquote ps
      else
        (case DecodeRune (of_char b # ahead ps) of
           (rr, n) \<Rightarrow> EncodeRune rr @ unquote (drop (n - 1) ps)))"
  by pat_completeness auto
termination
  by (relation "measure length") auto

definition lower_ascii :: "char \<Rightarrow> char" where
  "lower_ascii ch =
     (case map_of (zip ''ABCDEFGHIJKLMNOPQRSTUVWXYZ'' ''abcdefghijklmnopqrstuvwxyz'') ch of
        None \<Rightarrow> ch
      | Some l \<Rightarrow> l)"

definition fold_key :: "string \<Rightarrow> string" where
  "fold_key key = map lower_ascii key"

definition zero_CreateUserRequest :: CreateUserRequest where
  \<comment> \<open>\<open>var req CreateUserRequest\<close>: the zero value.\<close>
  "zero_CreateUserRequest = \<lparr>Req_Name = [], Req_Email = [], Req_Age = 0\<rparr>"

fun object_member ::
  "CreateUserRequest \<times> bool \<Rightarrow> string \<times> literal json \<Rightarrow> CreateUserRequest \<times> bool" where
  "object_member (req, mismatch) (key, v) =
     (let f = fold_key key in
      if f = ''name'' then
        (case v of
           JString s \<Rightarrow> (req\<lparr>Req_Name := unquote s\<rparr>, mismatch)
         | JNull \<Rightarrow> (req, mismatch)
         | _ \<Rightarrow> (req, True))
      else if f = ''email'' then
        (case v of
           JString s \<Rightarrow> (req\<lparr>Req_Email := unquote s\<rparr>, mismatch)
         | JNull \<Rightarrow> (req, mismatch)
         | _ \<Rightarrow> (req, True))
      else if f = ''age'' then
        (case v of
           JInt n \<Rightarrow>
             if - (2 ^ 63) \<le> n \<and> n < 2 ^ 63 then (req\<lparr>Req_Age := n\<rparr>, mismatch)
             else (req, True)
         | JNull \<Rightarrow> (req, mismatch)
         | _ \<Rightarrow> (req, True))
      else (req, mismatch))"

definition Unmarshal ::
  "literal json option \<Rightarrow> CreateUserRequest \<Rightarrow> parse_error + CreateUserRequest" where
  "Unmarshal data out =
     (case data of
        None \<Rightarrow> Inl SyntaxError
      | Some v \<Rightarrow>
          if maxNestingDepth < depth v then Inl SyntaxError
          else
            (case v of
               JObject ms \<Rightarrow>
                 (case foldl object_member (out, False) ms of
                    (req, mismatch) \<Rightarrow> if mismatch then Inl UnmarshalTypeError else Inr req)
             | JNull \<Rightarrow> Inr out
             | _ \<Rightarrow> Inl UnmarshalTypeError))"

definition BodyParser :: "Ctx \<Rightarrow> CreateUserRequest \<Rightarrow> parse_error + CreateUserRequest" where
  "BodyParser c out =
     (case ctype (Request c) of
        Json_type \<Rightarrow> Unmarshal (body (Request c)) out
      | No_decoder \<Rightarrow> Inl ErrUnprocessableEntity)"

section \<open>The handlers\<close>

text \<open>
  The standard logger is the only state outside the context that a handler touches:
  \<open>log.Println(a, b)\<close> appends one line, the operands separated by a space (the
  time stamp in front of the line is left out).
\<close>

type_synonym logger = "string list"

definition Println :: "string \<Rightarrow> string \<Rightarrow> logger \<Rightarrow> logger" where
  "Println a b out = out @ [a @ '' '' @ b]"

definition getUsers :: "Ctx \<Rightarrow> Ctx" where
  "getUsers c =
     (let users =
        [\<lparr>ID = 1, Name = ''John Doe'', Email = ''john@example.com'', Age = 30\<rparr>,
         \<lparr>ID = 2, Name = ''Jane Smith'', Email = ''jane@example.com'', Age = 25\<rparr>]
      in JSON (marshal_Users users) c)"

definition getUserByID :: "Ctx \<Rightarrow> Ctx" where
  "getUserByID c =
     (let id = Params c ''id'';
          user = \<lparr>ID = 1, Name = ''John Doe'', Email = ''john@example.com'', Age = 30\<rparr>
      in if id = ''1'' then JSON (marshal_User user) c
         else JSON (marshal_ErrorResponse
                      \<lparr>Error = ''Not Found'', Message = ''User not found''\<rparr>)
                (Status 404 c))"

definition createUser :: "Ctx \<Rightarrow> Ctx" where
  "createUser c =
     (case BodyParser c zero_CreateUserRequest of
        Inl err \<Rightarrow>
          JSON (marshal_ErrorResponse
                  \<lparr>Error = ''Bad Request'', Message = ''Invalid JSON format''\<rparr>)
            (Status 400 c)
      | Inr req \<Rightarrow>
          (let response =
             \<lparr>Succ_Message = ''User created successfully'',
              Data = Some \<lparr>ID = 3, Name = Req_Name req, Email = Req_Email req,
                           Age = Req_Age req\<rparr>\<rparr>
           in JSON (marshal_SuccessResponse response) (Status 201 c)))"

definition updateUser :: "Ctx \<Rightarrow> logger \<Rightarrow> Ctx \<times> logger" where
  "updateUser c out =
     (let id = Params c ''id'';
          out' = Println ''update user id:'' id out
      in case BodyParser c zero_CreateUserRequest of
           Inl err \<Rightarrow>
             (JSON (marshal_ErrorResponse
                      \<lparr>Error = ''Bad Request'', Message = ''Invalid JSON format''\<rparr>)
                (Status 400 c), out')
         | Inr req \<Rightarrow>
             (let response =
                \<lparr>Succ_Message = ''User updated successfully'',
                 Data = Some \<lparr>ID = 1, Name = Req_Name req, Email = Req_Email req,
                              Age = Req_Age req\<rparr>\<rparr>
              in (JSON (marshal_SuccessResponse response) c, out')))"

definition deleteUser :: "Ctx \<Rightarrow> logger \<Rightarrow> Ctx \<times> logger" where
  "deleteUser c out =
     (let id = Params c ''id'';
          out' = Println ''delete user id:'' id out;
          response = \<lparr>Succ_Message = ''User deleted successfully'', Data = None\<rparr>
      in (JSON (marshal_SuccessResponse response) c, out'))"

section \<open>Routing and serving\<close>

text \<open>
  The five routes that \<open>main\<close> registers under \<open>/api/v1\<close>, each with its handler.
  Matching a method and a path against the routes is the framework's work; a request is
  taken here together with the route it matched. \<open>serve\<close> runs a sequence of requests
  one after the other, each on a context of its own, the logger being the state that
  passes from one to the next.
\<close>

datatype route = GET_users | GET_users_id | POST_users | PUT_users_id | DELETE_users_id

fun handle :: "route \<Rightarrow> request \<Rightarrow> logger \<Rightarrow> Ctx \<times> logger" where
  "handle GET_users r out = (getUsers (AcquireCtx r), out)"
| "handle GET_users_id r out = (getUserByID (AcquireCtx r), out)"
| "handle POST_users r out = (createUser (AcquireCtx r), out)"
| "handle PUT_users_id r out = updateUser (AcquireCtx r) out"
| "handle DELETE_users_id r out = deleteUser (AcquireCtx r) out"

fun serve :: "(route \<times> request) list \<Rightarrow> logger \<Rightarrow> response list \<times> logger" where
  "serve [] out = ([], out)"
| "serve ((rt, r) # rest) out =
     (case handle rt r out of
        (c, out') \<Rightarrow> (case serve rest out' of (rs, out'') \<Rightarrow> (Response c # rs, out'')))"

section \<open>What a body submits\<close>

text \<open>
  The notions the statements about bodies are phrased in; they describe a JSON object
  from the outside and are not part of the program.
  \<^item> \<open>decodable_member\<close>: a member that is either for none of the three fields, or
    holds \<open>null\<close>, or holds a value of its field's declared type (a string for
    \<open>name\<close> and \<open>email\<close>, an integer literal within the 64-bit range for \<open>age\<close>).
  \<^item> \<open>submitted f ms\<close>: the value the object \<open>ms\<close> submits for field \<open>f\<close>: that of
    the last member for \<open>f\<close> that is not \<open>null\<close>, if there is one. \<open>string_or\<close> and
    \<open>int_or\<close> read it as the decoder does, a string literal unquoted, with a default
    for no value.
  \<^item> \<open>omits f ms\<close>: the object has no member for field \<open>f\<close>.
  \<^item> \<open>nest n\<close>: a deeply nested value, to try the limit on nesting with.
\<close>

definition decodable_member :: "string \<times> literal json \<Rightarrow> bool" where
  "decodable_member m =
     (let f = fold_key (fst m); v = snd m in
      if f = ''name'' \<or> f = ''email'' then
        (case v of JString s \<Rightarrow> True | JNull \<Rightarrow> True | _ \<Rightarrow> False)
      else if f = ''age'' then
        (case v of JInt n \<Rightarrow> - (2 ^ 63) \<le> n \<and> n < 2 ^ 63 | JNull \<Rightarrow> True | _ \<Rightarrow> False)
      else True)"

definition submitted :: "string \<Rightarrow> (string \<times> literal json) list \<Rightarrow> literal json option" where
  "submitted f ms =
     map_option snd (find (\<lambda>m. fold_key (fst m) = f \<and> snd m \<noteq> JNull) (rev ms))"

definition string_or :: "literal json option \<Rightarrow> string \<Rightarrow> string" where
  "string_or v d = (case v of Some (JString s) \<Rightarrow> unquote s | _ \<Rightarrow> d)"

definition int_or :: "literal json option \<Rightarrow> int \<Rightarrow> int" where
  "int_or v d = (case v of Some (JInt n) \<Rightarrow> n | _ \<Rightarrow> d)"

definition omits :: "string \<Rightarrow> (string \<times> literal json) list \<Rightarrow> bool" where
  "omits f ms = (f \<notin> set (map (\<lambda>m. fold_key (fst m)) ms))"

fun nest :: "nat \<Rightarrow> literal json" where
  \<comment> \<open>\<open>nest n\<close> is \<open>n + 1\<close> arrays, one inside the other: \<open>[[...[]...]]\<close>.\<close>
  "nest 0 = JArray []"
| "nest (Suc n) = JArray [nest n]"

section \<open>Decoding a well-typed object\<close>

lemmas ctx_defs = AcquireCtx_def JSON_def Status_def Response_def Params_def

lemmas key_defs = fold_key_def lower_ascii_def

lemma submitted_Nil: "submitted f [] = None"
  by (simp add: submitted_def)

lemma submitted_snoc:
  "submitted f (ms @ [m]) =
     (if fold_key (fst m) = f \<and> snd m \<noteq> JNull then Some (snd m) else submitted f ms)"
  by (simp add: submitted_def)

lemma omits_submitted: "omits f ms \<Longrightarrow> submitted f ms = None"
  by (induction ms rule: rev_induct) (auto simp: omits_def submitted_snoc submitted_Nil)

lemma object_member_decodable:
  assumes "decodable_member (k, v)"
  shows "object_member (req, b) (k, v) =
     (\<lparr>Req_Name =
         string_or (if fold_key k = ''name'' \<and> v \<noteq> JNull then Some v else None) (Req_Name req),
       Req_Email =
         string_or (if fold_key k = ''email'' \<and> v \<noteq> JNull then Some v else None) (Req_Email req),
       Req_Age =
         int_or (if fold_key k = ''age'' \<and> v \<noteq> JNull then Some v else None) (Req_Age req)\<rparr>,
      b)"
  using assms
  by (cases v) (auto simp: decodable_member_def string_or_def int_or_def Let_def split: if_splits)

lemma foldl_object_member_decodable:
  "list_all decodable_member ms \<Longrightarrow>
   foldl object_member (req, b) ms =
     (\<lparr>Req_Name = string_or (submitted ''name'' ms) (Req_Name req),
       Req_Email = string_or (submitted ''email'' ms) (Req_Email req),
       Req_Age = int_or (submitted ''age'' ms) (Req_Age req)\<rparr>, b)"
proof (induction ms rule: rev_induct)
  case Nil
  show ?case by (simp add: submitted_Nil string_or_def int_or_def)
next
  case (snoc m ms)
  obtain k v where m: "m = (k, v)" by (cases m)
  from snoc.prems have dm: "decodable_member (k, v)" and dms: "list_all decodable_member ms"
    by (simp_all add: m)
  let ?R = "\<lparr>Req_Name = string_or (submitted ''name'' ms) (Req_Name req),
       Req_Email = string_or (submitted ''email'' ms) (Req_Email req),
       Req_Age = int_or (submitted ''age'' ms) (Req_Age req)\<rparr>"
  have "foldl object_member (req, b) (ms @ [m]) =
          object_member (foldl object_member (req, b) ms) (k, v)"
    by (simp add: m del: object_member.simps)
  also have "\<dots> = object_member (?R, b) (k, v)"
    by (simp only: snoc.IH [OF dms])
  also have "\<dots> =
     (\<lparr>Req_Name =
         string_or (if fold_key k = ''name'' \<and> v \<noteq> JNull then Some v else None) (Req_Name ?R),
       Req_Email =
         string_or (if fold_key k = ''email'' \<and> v \<noteq> JNull then Some v else None) (Req_Email ?R),
       Req_Age =
         int_or (if fold_key k = ''age'' \<and> v \<noteq> JNull then Some v else None) (Req_Age ?R)\<rparr>,
      b)"
    by (rule object_member_decodable [OF dm])
  also have "\<dots> =
     (\<lparr>Req_Name = string_or (submitted ''name'' (ms @ [m])) (Req_Name req),
       Req_Email = string_or (submitted ''email'' (ms @ [m])) (Req_Email req),
       Req_Age = int_or (submitted ''age'' (ms @ [m])) (Req_Age req)\<rparr>, b)"
    using dm
    by (cases v)
       (auto simp: submitted_snoc m string_or_def int_or_def decodable_member_def Let_def)
  finally show ?case .
qed

lemma Unmarshal_decodable:
  assumes "depth (JObject ms) \<le> maxNestingDepth" and "list_all decodable_member ms"
  shows "Unmarshal (Some (JObject ms)) out =
     Inr \<lparr>Req_Name = string_or (submitted ''name'' ms) (Req_Name out),
          Req_Email = string_or (submitted ''email'' ms) (Req_Email out),
          Req_Age = int_or (submitted ''age'' ms) (Req_Age out)\<rparr>"
proof -
  have "\<not> maxNestingDepth < depth (JObject ms)"
    using assms(1) by simp
  then show ?thesis
    by (simp add: Unmarshal_def foldl_object_member_decodable [OF assms(2)]
          del: depth.simps)
qed

lemma Unmarshal_too_deep:
  "maxNestingDepth < depth v \<Longrightarrow> Unmarshal (Some v) out = Inl SyntaxError"
  by (simp add: Unmarshal_def)

lemma depth_nest: "depth (nest n) = Suc n"
  by (induction n) simp_all

lemma createUser_too_deep:
  assumes "maxNestingDepth < depth v"
  shows "Response (createUser (AcquireCtx
            \<lparr>params = ps, query = q, ctype = Json_type, body = Some v\<rparr>)) =
     (400, Some (marshal_ErrorResponse
        \<lparr>Error = ''Bad Request'', Message = ''Invalid JSON format''\<rparr>))"
  by (simp add: createUser_def BodyParser_def Unmarshal_too_deep [OF assms] ctx_defs)

lemma unquote_ascii:
  "list_all (\<lambda>c. of_char c < (0x80 :: nat)) s \<Longrightarrow> unquote (map Byte s) = s"
  by (induction s) auto

lemma unquote_ill_formed_byte:
  "unquote [Byte (CHR ''A''), Byte (CHR 0xFF), Byte (CHR ''B'')] =
     [CHR ''A'', CHR 0xEF, CHR 0xBF, CHR 0xBD, CHR ''B'']"
  by (simp add: DecodeRune_def first_def EncodeRune_def RuneError_def surrogate_def char_of_def bit_0)

lemma unquote_unpaired_surrogate:
  "unquote [Escape 0xD800, Byte (CHR ''x'')] = [CHR 0xEF, CHR 0xBF, CHR 0xBD, CHR ''x'']"
  by (simp add: EncodeRune_def RuneError_def surrogate_def char_of_def bit_0)

lemma unquote_surrogate_pair:
  "unquote [Escape 0xD83D, Escape 0xDE00] = [CHR 0xF0, CHR 0x9F, CHR 0x98, CHR 0x80]"
  by (simp add: EncodeRune_def RuneError_def surrogate_def char_of_def bit_0)

lemma unquote_well_formed:
  "unquote [Byte (CHR 0xE2), Byte (CHR 0x82), Byte (CHR 0xAC), Escape 0xE9] =
     [CHR 0xE2, CHR 0x82, CHR 0xAC, CHR 0xC3, CHR 0xA9]"
  by (simp add: DecodeRune_def first_def EncodeRune_def RuneError_def surrogate_def char_of_def bit_0)

lemma BodyParser_decodable:
  assumes "depth (JObject ms) \<le> maxNestingDepth" and "list_all decodable_member ms"
  shows "BodyParser (AcquireCtx
            \<lparr>params = ps, query = q, ctype = Json_type, body = Some (JObject ms)\<rparr>)
           zero_CreateUserRequest =
     Inr \<lparr>Req_Name = string_or (submitted ''name'' ms) '''',
          Req_Email = string_or (submitted ''email'' ms) '''',
          Req_Age = int_or (submitted ''age'' ms) 0\<rparr>"
  by (simp add: BodyParser_def AcquireCtx_def Unmarshal_decodable [OF assms]
        zero_CreateUserRequest_def)

lemma createUser_parsed:
  assumes "BodyParser (AcquireCtx r) zero_CreateUserRequest = Inr req"
  shows "Response (createUser (AcquireCtx r)) =
     (201, Some (marshal_SuccessResponse
        \<lparr>Succ_Message = ''User created successfully'',
         Data = Some \<lparr>ID = 3, Name = Req_Name req, Email = Req_Email req,
                      Age = Req_Age req\<rparr>\<rparr>))"
  using assms by (simp add: createUser_def Let_def JSON_def Status_def Response_def AcquireCtx_def)

section \<open>The response does not depend on earlier requests\<close>

lemma handle_log_independent:
  "Response (fst (handle rt r out)) = Response (fst (handle rt r out'))"
  by (cases rt)
     (simp_all add: updateUser_def deleteUser_def Let_def Response_def split: sum.splits)

lemma serve_responses:
  "fst (serve reqs out) = map (\<lambda>(rt, r). Response (fst (handle rt r []))) reqs"
proof (induction reqs arbitrary: out)
  case Nil
  show ?case by simp
next
  case (Cons x reqs)
  obtain rt r where x: "x = (rt, r)" by (cases x)
  obtain c out' where h: "handle rt r out = (c, out')" by (cases "handle rt r out")
  obtain rs out'' where s: "serve reqs out' = (rs, out'')" by (cases "serve reqs out'")
  have "Response c = Response (fst (handle rt r []))"
    using handle_log_independent [of rt r out "[]"] by (simp add: h)
  moreover have "rs = map (\<lambda>(rt, r). Response (fst (handle rt r []))) reqs"
    using Cons.IH [of out'] by (simp add: s)
  ultimately show ?case
    by (simp add: x h s)
qed

section \<open>The read handlers\<close>

text \<open>
  C5. For every request to \<open>GET /api/v1/users\<close>, whatever its query parameters (and
  whatever else it carries), the response is status 200 with exactly the array of the
  two fixed users; the handler has no other outcome, so no failure response (the
  documented 500 in particular) can arise.
\<close>

theorem getUsers_always_two_users:
  "Response (getUsers (AcquireCtx r)) =
     (200, Some (JArray
        [marshal_User \<lparr>ID = 1, Name = ''John Doe'', Email = ''john@example.com'', Age = 30\<rparr>,
         marshal_User \<lparr>ID = 2, Name = ''Jane Smith'', Email = ''jane@example.com'', Age = 25\<rparr>]))"
  by (simp add: getUsers_def AcquireCtx_def JSON_def Response_def marshal_Users_def)

text \<open>
  C1. For every request to \<open>GET /api/v1/users/{id}\<close>: if the path parameter is the
  string \<open>1\<close>, the response is status 200 with the user
  \<open>{id: 1, name: John Doe, email: john@example.com, age: 30}\<close>; for every other
  string, numeric or not, it is status 404 with the error response
  \<open>{error: Not Found, message: User not found}\<close>. The second conjunct says that the
  parameter the handler reads is the string the route bound to \<open>id\<close>.
\<close>

theorem getUserByID_one_or_not_found:
  "Response (getUserByID (AcquireCtx r)) =
     (if Params (AcquireCtx r) ''id'' = ''1''
      then (200, Some (marshal_User
              \<lparr>ID = 1, Name = ''John Doe'', Email = ''john@example.com'', Age = 30\<rparr>))
      else (404, Some (marshal_ErrorResponse
              \<lparr>Error = ''Not Found'', Message = ''User not found''\<rparr>)))
   \<and> Params (AcquireCtx (r\<lparr>params := [(''id'', s)]\<rparr>)) ''id'' = s"
  by (simp add: getUserByID_def ctx_defs)

section \<open>The delete handler\<close>

text \<open>
  C6. For every value of the path parameter (and every request that carries it),
  \<open>DELETE /api/v1/users/{id}\<close> answers status 200 with the success response whose
  message is \<open>User deleted successfully\<close>, and the serialized response is the object
  with the single member \<open>message\<close>: there is no \<open>data\<close> member. The handler has no
  other outcome, so no 404 or other failure can arise.
\<close>

theorem deleteUser_always_succeeds:
  "Response (fst (deleteUser (AcquireCtx r) out)) =
     (200, Some (marshal_SuccessResponse
        \<lparr>Succ_Message = ''User deleted successfully'', Data = None\<rparr>))
   \<and> marshal_SuccessResponse \<lparr>Succ_Message = ''User deleted successfully'', Data = None\<rparr> =
       JObject [(''message'', JString ''User deleted successfully'')]"
  by (simp add: deleteUser_def Let_def ctx_defs marshal_SuccessResponse_def)

section \<open>The write handlers\<close>

text \<open>
  C3. For every path parameter and every body that parses into a
  \<open>CreateUserRequest\<close>, \<open>PUT /api/v1/users/{id}\<close> answers status 200 with the success
  response whose message is \<open>User updated successfully\<close> and whose data is a user
  with id 1, whatever the path parameter is, and with the name, email and age of the
  parsed body.
\<close>

theorem updateUser_echoes_body:
  assumes "BodyParser (AcquireCtx r) zero_CreateUserRequest = Inr req"
  shows "Response (fst (updateUser (AcquireCtx r) out)) =
     (200, Some (marshal_SuccessResponse
        \<lparr>Succ_Message = ''User updated successfully'',
         Data = Some \<lparr>ID = 1, Name = Req_Name req, Email = Req_Email req,
                      Age = Req_Age req\<rparr>\<rparr>))"
  using assms by (simp add: updateUser_def Let_def JSON_def Response_def AcquireCtx_def)

theorem updateUser_echoes_body_witness:
  "BodyParser (AcquireCtx
      \<lparr>params = [(''id'', ''7'')], query = [], ctype = Json_type,
       body = Some (JObject
         [(''name'', JString (map Byte ''Ann'')), (''email'', JString (map Byte ''ann@example.com'')),
          (''age'', JInt 41)])\<rparr>) zero_CreateUserRequest =
     Inr \<lparr>Req_Name = ''Ann'', Req_Email = ''ann@example.com'', Req_Age = 41\<rparr>
   \<and> Response (fst (updateUser (AcquireCtx
      \<lparr>params = [(''id'', ''7'')], query = [], ctype = Json_type,
       body = Some (JObject
         [(''name'', JString (map Byte ''Ann'')), (''email'', JString (map Byte ''ann@example.com'')),
          (''age'', JInt 41)])\<rparr>) [])) =
     (200, Some (marshal_SuccessResponse
        \<lparr>Succ_Message = ''User updated successfully'',
         Data = Some \<lparr>ID = 1, Name = ''Ann'', Email = ''ann@example.com'', Age = 41\<rparr>\<rparr>))"
proof -
  have p: "BodyParser (AcquireCtx
      \<lparr>params = [(''id'', ''7'')], query = [], ctype = Json_type,
       body = Some (JObject
         [(''name'', JString (map Byte ''Ann'')), (''email'', JString (map Byte ''ann@example.com'')),
          (''age'', JInt 41)])\<rparr>) zero_CreateUserRequest =
     Inr \<lparr>Req_Name = ''Ann'', Req_Email = ''ann@example.com'', Req_Age = 41\<rparr>"
    by (simp add: BodyParser_def Unmarshal_def maxNestingDepth_def AcquireCtx_def key_defs
          zero_CreateUserRequest_def)
  show ?thesis
    using p updateUser_echoes_body [OF p, of "[]"] by simp
qed

text \<open>
  C4. \<open>POST /api/v1/users\<close> and \<open>PUT /api/v1/users/{id}\<close> answer status 400 if and
  only if the body fails to parse into a \<open>CreateUserRequest\<close>; when it fails, both
  answer with the same error response \<open>{error: Bad Request, message: Invalid JSON
  format}\<close>, which is then the whole response body: no success payload is produced.
\<close>

theorem parse_failure_iff_bad_request:
  "(resp_status (createUser (AcquireCtx r)) = 400) =
     isl (BodyParser (AcquireCtx r) zero_CreateUserRequest)
   \<and> (resp_status (fst (updateUser (AcquireCtx r) out)) = 400) =
     isl (BodyParser (AcquireCtx r) zero_CreateUserRequest)
   \<and> (isl (BodyParser (AcquireCtx r) zero_CreateUserRequest) \<longrightarrow>
        Response (createUser (AcquireCtx r)) =
          (400, Some (marshal_ErrorResponse
             \<lparr>Error = ''Bad Request'', Message = ''Invalid JSON format''\<rparr>))
        \<and> Response (fst (updateUser (AcquireCtx r) out)) =
          (400, Some (marshal_ErrorResponse
             \<lparr>Error = ''Bad Request'', Message = ''Invalid JSON format''\<rparr>)))"
  by (cases "BodyParser (AcquireCtx r) zero_CreateUserRequest")
     (simp_all add: createUser_def updateUser_def Let_def JSON_def Status_def Response_def
        AcquireCtx_def)

theorem parse_failure_iff_bad_request_witness:
  "isl (BodyParser (AcquireCtx \<lparr>params = [(''id'', ''2'')], query = [], ctype = Json_type,
          body = None\<rparr>) zero_CreateUserRequest)
   \<and> Response (createUser (AcquireCtx \<lparr>params = [(''id'', ''2'')], query = [],
          ctype = Json_type, body = None\<rparr>)) =
       (400, Some (marshal_ErrorResponse
          \<lparr>Error = ''Bad Request'', Message = ''Invalid JSON format''\<rparr>))
   \<and> Response (fst (updateUser (AcquireCtx \<lparr>params = [(''id'', ''2'')], query = [],
          ctype = Json_type, body = None\<rparr>) [])) =
       (400, Some (marshal_ErrorResponse
          \<lparr>Error = ''Bad Request'', Message = ''Invalid JSON format''\<rparr>))"
proof -
  have f: "isl (BodyParser (AcquireCtx \<lparr>params = [(''id'', ''2'')], query = [],
          ctype = Json_type, body = None\<rparr>) zero_CreateUserRequest)"
    by (simp add: BodyParser_def Unmarshal_def AcquireCtx_def)
  show ?thesis
    using f parse_failure_iff_bad_request
      [of "\<lparr>params = [(''id'', ''2'')], query = [], ctype = Json_type, body = None\<rparr>" "[]"]
    by simp
qed

text \<open>
  C9. There is a syntactically valid JSON object body, one whose \<open>age\<close> member is a
  JSON string, for which \<open>POST /api/v1/users\<close> answers status 400 with error
  \<open>Bad Request\<close> and not 201: parsing the body into a \<open>CreateUserRequest\<close> fails on
  the type mismatch (not on the syntax). The same body sent to
  \<open>PUT /api/v1/users/{id}\<close> yields 400 as well, whatever the id.
\<close>

theorem type_mismatch_is_bad_request:
  "BodyParser (AcquireCtx
      \<lparr>params = ps, query = q, ctype = Json_type,
       body = Some (JObject
         [(''name'', JString (map Byte ''John Doe'')), (''email'', JString (map Byte ''john@example.com'')),
          (''age'', JString (map Byte ''30''))])\<rparr>) zero_CreateUserRequest = Inl UnmarshalTypeError
   \<and> Response (createUser (AcquireCtx
      \<lparr>params = ps, query = q, ctype = Json_type,
       body = Some (JObject
         [(''name'', JString (map Byte ''John Doe'')), (''email'', JString (map Byte ''john@example.com'')),
          (''age'', JString (map Byte ''30''))])\<rparr>)) =
     (400, Some (marshal_ErrorResponse
        \<lparr>Error = ''Bad Request'', Message = ''Invalid JSON format''\<rparr>))
   \<and> Response (fst (updateUser (AcquireCtx
      \<lparr>params = ps, query = q, ctype = Json_type,
       body = Some (JObject
         [(''name'', JString (map Byte ''John Doe'')), (''email'', JString (map Byte ''john@example.com'')),
          (''age'', JString (map Byte ''30''))])\<rparr>) out)) =
     (400, Some (marshal_ErrorResponse
        \<lparr>Error = ''Bad Request'', Message = ''Invalid JSON format''\<rparr>))"
  by (simp add: createUser_def updateUser_def Let_def BodyParser_def Unmarshal_def maxNestingDepth_def ctx_defs
        key_defs zero_CreateUserRequest_def)

text \<open>
  C2, as stated: every syntactically valid JSON object body makes
  \<open>POST /api/v1/users\<close> answer 201. It does not: the first object below is valid
  JSON, sent as JSON, and its \<open>age\<close> is a string; the answer is 400. Nor does the type
  of the fields suffice: the second object is well typed, and sent with a content type
  that selects no decoder; the third has a single member, for no field, whose value is
  10001 arrays deep; the answer is 400 both times.
\<close>

theorem createUser_valid_object_counterexample:
  "Response (createUser (AcquireCtx
      \<lparr>params = [], query = [], ctype = Json_type,
       body = Some (JObject
         [(''name'', JString (map Byte ''Ann'')), (''email'', JString (map Byte ''ann@example.com'')),
          (''age'', JString (map Byte ''thirty''))])\<rparr>)) =
     (400, Some (marshal_ErrorResponse
        \<lparr>Error = ''Bad Request'', Message = ''Invalid JSON format''\<rparr>))
   \<and> resp_status (createUser (AcquireCtx
      \<lparr>params = [], query = [], ctype = Json_type,
       body = Some (JObject
         [(''name'', JString (map Byte ''Ann'')), (''email'', JString (map Byte ''ann@example.com'')),
          (''age'', JString (map Byte ''thirty''))])\<rparr>)) \<noteq> 201
   \<and> Response (createUser (AcquireCtx
      \<lparr>params = [], query = [], ctype = No_decoder,
       body = Some (JObject
         [(''name'', JString (map Byte ''Ann'')), (''email'', JString (map Byte ''ann@example.com'')),
          (''age'', JInt 30)])\<rparr>)) =
     (400, Some (marshal_ErrorResponse
        \<lparr>Error = ''Bad Request'', Message = ''Invalid JSON format''\<rparr>))
   \<and> Response (createUser (AcquireCtx
      \<lparr>params = [], query = [], ctype = Json_type,
       body = Some (JObject [(''extra'', nest 10000)])\<rparr>)) =
     (400, Some (marshal_ErrorResponse
        \<lparr>Error = ''Bad Request'', Message = ''Invalid JSON format''\<rparr>))"
  by (simp add: createUser_def BodyParser_def Unmarshal_def ctx_defs key_defs
        zero_CreateUserRequest_def maxNestingDepth_def depth_nest)

text \<open>
  C2, amended. For every JSON object body, sent with a JSON content type, that nests
  arrays and objects at most 10000 deep and in which each member for \<open>name\<close>, \<open>email\<close>
  or \<open>age\<close> holds a value of the field's declared type or \<open>null\<close>,
  \<open>POST /api/v1/users\<close> answers status 201 with the success response whose message is
  \<open>User created successfully\<close> and whose data is a user with id 3 and with the name,
  email and age the body submits (the zero value for a field it submits no value for).
  A submitted string is echoed as the decoder reads it, that is unquoted: text of
  bytes below 128 comes back as it is (\<open>unquote_ascii\<close>), an ill-formed byte and an
  escape of an unpaired surrogate come back as U+FFFD (\<open>unquote_ill_formed_byte\<close>,
  \<open>unquote_unpaired_surrogate\<close>). Nothing else is asked of the values: the
  constraints declared for \<open>CreateUserRequest\<close> (required, email, min) are not
  enforced, as the witness shows with an empty name, an email that is none (and has an
  ill-formed byte) and a negative age.
\<close>

theorem createUser_decodable_object:
  assumes "depth (JObject ms) \<le> maxNestingDepth" and "list_all decodable_member ms"
  shows "Response (createUser (AcquireCtx
            \<lparr>params = ps, query = q, ctype = Json_type, body = Some (JObject ms)\<rparr>)) =
     (201, Some (marshal_SuccessResponse
        \<lparr>Succ_Message = ''User created successfully'',
         Data = Some \<lparr>ID = 3, Name = string_or (submitted ''name'' ms) '''',
                      Email = string_or (submitted ''email'' ms) '''',
                      Age = int_or (submitted ''age'' ms) 0\<rparr>\<rparr>))"
  by (simp add: createUser_parsed [OF BodyParser_decodable [OF assms]])

theorem createUser_decodable_object_witness:
  "depth (JObject
     [(''name'', JString []),
      (''Email'', JString [Byte (CHR ''A''), Byte (CHR 0xFF), Byte (CHR ''B'')]),
      (''age'', JInt (- 5))]) \<le> maxNestingDepth
   \<and> list_all decodable_member
     [(''name'', JString []),
      (''Email'', JString [Byte (CHR ''A''), Byte (CHR 0xFF), Byte (CHR ''B'')]),
      (''age'', JInt (- 5))]
   \<and> Response (createUser (AcquireCtx
        \<lparr>params = [], query = [], ctype = Json_type,
         body = Some (JObject
           [(''name'', JString []),
            (''Email'', JString [Byte (CHR ''A''), Byte (CHR 0xFF), Byte (CHR ''B'')]),
            (''age'', JInt (- 5))])\<rparr>)) =
     (201, Some (marshal_SuccessResponse
        \<lparr>Succ_Message = ''User created successfully'',
         Data = Some \<lparr>ID = 3, Name = '''',
                      Email = [CHR ''A'', CHR 0xEF, CHR 0xBF, CHR 0xBD, CHR ''B''],
                      Age = - 5\<rparr>\<rparr>))"
proof -
  have n: "depth (JObject
     [(''name'', JString []),
      (''Email'', JString [Byte (CHR ''A''), Byte (CHR 0xFF), Byte (CHR ''B'')]),
      (''age'', JInt (- 5))]) \<le> maxNestingDepth"
    by (simp add: maxNestingDepth_def)
  have d: "list_all decodable_member
     [(''name'', JString []),
      (''Email'', JString [Byte (CHR ''A''), Byte (CHR 0xFF), Byte (CHR ''B'')]),
      (''age'', JInt (- 5))]"
    by (simp add: decodable_member_def key_defs)
  have s: "string_or (submitted ''email''
     [(''name'', JString []),
      (''Email'', JString [Byte (CHR ''A''), Byte (CHR 0xFF), Byte (CHR ''B'')]),
      (''age'', JInt (- 5))]) '''' = [CHR ''A'', CHR 0xEF, CHR 0xBF, CHR 0xBD, CHR ''B'']"
    by (simp add: submitted_def string_or_def key_defs unquote_ill_formed_byte
          del: unquote.simps)
  show ?thesis
    using n d createUser_decodable_object [OF n d, of "[]" "[]"]
    by (simp add: s) (simp add: submitted_def string_or_def int_or_def key_defs)
qed

text \<open>
  C10, as stated: every syntactically valid JSON object body that omits some of the
  fields makes \<open>POST /api/v1/users\<close> answer 201 with zero values for the omitted
  fields. It does not: the object below omits \<open>email\<close> and \<open>age\<close>, and its \<open>name\<close> is a
  number; the answer is 400. So is the answer to the empty object when the content type
  selects no decoder, and to an object that omits all three fields and has a member
  whose value is 10002 arrays deep.
\<close>

theorem createUser_omitted_fields_counterexample:
  "omits ''email'' [(''name'', JInt 7)] \<and> omits ''age'' [(''name'', JInt 7)]
   \<and> Response (createUser (AcquireCtx
      \<lparr>params = [], query = [], ctype = Json_type,
       body = Some (JObject [(''name'', JInt 7)])\<rparr>)) =
     (400, Some (marshal_ErrorResponse
        \<lparr>Error = ''Bad Request'', Message = ''Invalid JSON format''\<rparr>))
   \<and> resp_status (createUser (AcquireCtx
      \<lparr>params = [], query = [], ctype = Json_type,
       body = Some (JObject [(''name'', JInt 7)])\<rparr>)) \<noteq> 201
   \<and> Response (createUser (AcquireCtx
      \<lparr>params = [], query = [], ctype = No_decoder, body = Some (JObject [])\<rparr>)) =
     (400, Some (marshal_ErrorResponse
        \<lparr>Error = ''Bad Request'', Message = ''Invalid JSON format''\<rparr>))
   \<and> omits ''name'' [(''other'', nest 10001)] \<and> omits ''email'' [(''other'', nest 10001)]
   \<and> omits ''age'' [(''other'', nest 10001)]
   \<and> Response (createUser (AcquireCtx
      \<lparr>params = [], query = [], ctype = Json_type,
       body = Some (JObject [(''other'', nest 10001)])\<rparr>)) =
     (400, Some (marshal_ErrorResponse
        \<lparr>Error = ''Bad Request'', Message = ''Invalid JSON format''\<rparr>))"
  by (simp add: omits_def createUser_def BodyParser_def Unmarshal_def ctx_defs key_defs
        zero_CreateUserRequest_def maxNestingDepth_def depth_nest)

text \<open>
  C10, amended. For every JSON object body, sent with a JSON content type, that nests
  arrays and objects at most 10000 deep and in which each member for \<open>name\<close>, \<open>email\<close>
  or \<open>age\<close> holds a value of the field's declared type or \<open>null\<close>,
  \<open>POST /api/v1/users\<close> answers status 201 with a user of id 3 that carries the zero
  value (name \<open>""\<close>, email \<open>""\<close>, age 0) for each field the body omits; in particular
  the empty object yields the user \<open>{id: 3, name: "", email: "", age: 0}\<close>.
\<close>

theorem createUser_omitted_fields_zero:
  assumes "depth (JObject ms) \<le> maxNestingDepth" and "list_all decodable_member ms"
  shows "(\<exists>u. Response (createUser (AcquireCtx
              \<lparr>params = ps, query = q, ctype = Json_type, body = Some (JObject ms)\<rparr>)) =
            (201, Some (marshal_SuccessResponse
               \<lparr>Succ_Message = ''User created successfully'', Data = Some u\<rparr>))
          \<and> ID u = 3
          \<and> (omits ''name'' ms \<longrightarrow> Name u = '''')
          \<and> (omits ''email'' ms \<longrightarrow> Email u = '''')
          \<and> (omits ''age'' ms \<longrightarrow> Age u = 0))
   \<and> Response (createUser (AcquireCtx
         \<lparr>params = ps, query = q, ctype = Json_type, body = Some (JObject [])\<rparr>)) =
       (201, Some (marshal_SuccessResponse
          \<lparr>Succ_Message = ''User created successfully'',
           Data = Some \<lparr>ID = 3, Name = '''', Email = '''', Age = 0\<rparr>\<rparr>))"
proof
  let ?u = "\<lparr>ID = 3, Name = string_or (submitted ''name'' ms) '''',
             Email = string_or (submitted ''email'' ms) '''',
             Age = int_or (submitted ''age'' ms) 0\<rparr>"
  have "Response (createUser (AcquireCtx
              \<lparr>params = ps, query = q, ctype = Json_type, body = Some (JObject ms)\<rparr>)) =
            (201, Some (marshal_SuccessResponse
               \<lparr>Succ_Message = ''User created successfully'', Data = Some ?u\<rparr>))"
    by (simp add: createUser_parsed [OF BodyParser_decodable [OF assms]])
  moreover have "ID ?u = 3" by simp
  moreover have "omits ''name'' ms \<longrightarrow> Name ?u = ''''"
    by (simp add: omits_submitted string_or_def)
  moreover have "omits ''email'' ms \<longrightarrow> Email ?u = ''''"
    by (simp add: omits_submitted string_or_def)
  moreover have "omits ''age'' ms \<longrightarrow> Age ?u = 0"
    by (simp add: omits_submitted int_or_def)
  ultimately show "\<exists>u. Response (createUser (AcquireCtx
              \<lparr>params = ps, query = q, ctype = Json_type, body = Some (JObject ms)\<rparr>)) =
            (201, Some (marshal_SuccessResponse
               \<lparr>Succ_Message = ''User created successfully'', Data = Some u\<rparr>))
          \<and> ID u = 3
          \<and> (omits ''name'' ms \<longrightarrow> Name u = '''')
          \<and> (omits ''email'' ms \<longrightarrow> Email u = '''')
          \<and> (omits ''age'' ms \<longrightarrow> Age u = 0)"
    by blast
next
  show "Response (createUser (AcquireCtx
         \<lparr>params = ps, query = q, ctype = Json_type, body = Some (JObject [])\<rparr>)) =
       (201, Some (marshal_SuccessResponse
          \<lparr>Succ_Message = ''User created successfully'',
           Data = Some \<lparr>ID = 3, Name = '''', Email = '''', Age = 0\<rparr>\<rparr>))"
    by (simp add: createUser_def BodyParser_def Unmarshal_def ctx_defs
          zero_CreateUserRequest_def maxNestingDepth_def)
qed

theorem createUser_omitted_fields_zero_witness:
  "depth (JObject [(''name'', JString (map Byte ''Ann''))]) \<le> maxNestingDepth
   \<and> list_all decodable_member [(''name'', JString (map Byte ''Ann''))]
   \<and> omits ''email'' [(''name'', JString (map Byte ''Ann''))]
   \<and> omits ''age'' [(''name'', JString (map Byte ''Ann''))]
   \<and> (\<exists>u. Response (createUser (AcquireCtx
              \<lparr>params = [], query = [], ctype = Json_type,
               body = Some (JObject [(''name'', JString (map Byte ''Ann''))])\<rparr>)) =
            (201, Some (marshal_SuccessResponse
               \<lparr>Succ_Message = ''User created successfully'', Data = Some u\<rparr>))
          \<and> ID u = 3 \<and> Email u = '''' \<and> Age u = 0)"
proof -
  have n: "depth (JObject [(''name'', JString (map Byte ''Ann''))]) \<le> maxNestingDepth"
    by (simp add: maxNestingDepth_def)
  have d: "list_all decodable_member [(''name'', JString (map Byte ''Ann''))]"
    by (simp add: decodable_member_def key_defs)
  have e: "omits ''email'' [(''name'', JString (map Byte ''Ann''))]"
    by (simp add: omits_def key_defs)
  have a: "omits ''age'' [(''name'', JString (map Byte ''Ann''))]"
    by (simp add: omits_def key_defs)
  from createUser_omitted_fields_zero [OF n d, of "[]" "[]"] e a
  have "\<exists>u. Response (createUser (AcquireCtx
              \<lparr>params = [], query = [], ctype = Json_type,
               body = Some (JObject [(''name'', JString (map Byte ''Ann''))])\<rparr>)) =
            (201, Some (marshal_SuccessResponse
               \<lparr>Succ_Message = ''User created successfully'', Data = Some u\<rparr>))
          \<and> ID u = 3 \<and> Email u = '''' \<and> Age u = 0"
    by blast
  with n d e a show ?thesis by blast
qed

section \<open>Statelessness and the kinds of error\<close>

text \<open>
  C7. Every handler is a function of its request and changes nothing that a handler
  reads; the users are constants of the handlers, and the only state that outlives a
  request is the logger, which two handlers append to and none reads. So, for every
  sequence of requests to the five routes and every state it starts from:
  \<^item> each response is the response the same request gets on its own;
  \<^item> repeating one request any number of times yields the same response every time;
  \<^item> after any sequence of requests a request gets the response it would have got
    before it, and the list of users is still the two fixed users.
\<close>

theorem handlers_stateless:
  "fst (serve reqs out) = map (\<lambda>(rt, r). Response (fst (handle rt r []))) reqs
   \<and> fst (serve (replicate n (rt, r)) out) = replicate n (Response (fst (handle rt r out')))
   \<and> Response (fst (handle rt r (snd (serve reqs out)))) = Response (fst (handle rt r out'))
   \<and> Response (fst (handle GET_users r (snd (serve reqs out)))) =
       (200, Some (marshal_Users
          [\<lparr>ID = 1, Name = ''John Doe'', Email = ''john@example.com'', Age = 30\<rparr>,
           \<lparr>ID = 2, Name = ''Jane Smith'', Email = ''jane@example.com'', Age = 25\<rparr>]))"
proof -
  have 1: "fst (serve reqs out) = map (\<lambda>(rt, r). Response (fst (handle rt r []))) reqs"
    by (rule serve_responses)
  have "fst (serve (replicate n (rt, r)) out) =
          replicate n (Response (fst (handle rt r [])))"
    by (simp add: serve_responses)
  also have "Response (fst (handle rt r [])) = Response (fst (handle rt r out'))"
    by (rule handle_log_independent)
  finally have 2: "fst (serve (replicate n (rt, r)) out) =
          replicate n (Response (fst (handle rt r out')))" .
  have 3: "Response (fst (handle rt r (snd (serve reqs out)))) =
          Response (fst (handle rt r out'))"
    by (rule handle_log_independent)
  have 4: "Response (fst (handle GET_users r (snd (serve reqs out)))) =
       (200, Some (marshal_Users
          [\<lparr>ID = 1, Name = ''John Doe'', Email = ''john@example.com'', Age = 30\<rparr>,
           \<lparr>ID = 2, Name = ''Jane Smith'', Email = ''jane@example.com'', Age = 25\<rparr>]))"
    by (simp add: getUsers_def ctx_defs)
  from 1 2 3 4 show ?thesis by blast
qed

text \<open>
  C8. Across the five handlers there are exactly two kinds of error response. Every
  response is either a success (status 200 or 201, with a body that is not an error
  response), or the complete response 400 \<open>{error: Bad Request, message: Invalid JSON
  format}\<close>, which only \<open>POST\<close> and \<open>PUT\<close> give, or the complete response 404
  \<open>{error: Not Found, message: User not found}\<close>, which only \<open>GET /users/{id}\<close> gives.
  No handler answers 500. Each of the three error cases does occur.
\<close>

theorem two_error_kinds:
  "(((resp_status (fst (handle rt r out)) = 200 \<or> resp_status (fst (handle rt r out)) = 201)
      \<and> (\<forall>e. resp_body (fst (handle rt r out)) \<noteq> Some (marshal_ErrorResponse e)))
    \<or> ((rt = POST_users \<or> rt = PUT_users_id)
      \<and> Response (fst (handle rt r out)) =
          (400, Some (marshal_ErrorResponse
             \<lparr>Error = ''Bad Request'', Message = ''Invalid JSON format''\<rparr>)))
    \<or> (rt = GET_users_id
      \<and> Response (fst (handle rt r out)) =
          (404, Some (marshal_ErrorResponse
             \<lparr>Error = ''Not Found'', Message = ''User not found''\<rparr>))))
   \<and> resp_status (fst (handle rt r out)) \<noteq> 500
   \<and> (\<exists>r'. Response (fst (handle POST_users r' out)) =
          (400, Some (marshal_ErrorResponse
             \<lparr>Error = ''Bad Request'', Message = ''Invalid JSON format''\<rparr>)))
   \<and> (\<exists>r'. Response (fst (handle PUT_users_id r' out)) =
          (400, Some (marshal_ErrorResponse
             \<lparr>Error = ''Bad Request'', Message = ''Invalid JSON format''\<rparr>)))
   \<and> (\<exists>r'. Response (fst (handle GET_users_id r' out)) =
          (404, Some (marshal_ErrorResponse
             \<lparr>Error = ''Not Found'', Message = ''User not found''\<rparr>)))"
proof -
  let ?bad = "\<lparr>params = [(''id'', ''2'')], query = [], ctype = Json_type, body = None\<rparr>"
  have kinds:
    "((resp_status (fst (handle rt r out)) = 200 \<or> resp_status (fst (handle rt r out)) = 201)
      \<and> (\<forall>e. resp_body (fst (handle rt r out)) \<noteq> Some (marshal_ErrorResponse e)))
    \<or> ((rt = POST_users \<or> rt = PUT_users_id)
      \<and> Response (fst (handle rt r out)) =
          (400, Some (marshal_ErrorResponse
             \<lparr>Error = ''Bad Request'', Message = ''Invalid JSON format''\<rparr>)))
    \<or> (rt = GET_users_id
      \<and> Response (fst (handle rt r out)) =
          (404, Some (marshal_ErrorResponse
             \<lparr>Error = ''Not Found'', Message = ''User not found''\<rparr>)))"
    by (cases rt)
       (simp_all add: getUsers_def getUserByID_def createUser_def updateUser_def
          deleteUser_def Let_def ctx_defs marshal_Users_def marshal_User_def
          marshal_ErrorResponse_def marshal_SuccessResponse_def split: sum.splits)
  have no500: "resp_status (fst (handle rt r out)) \<noteq> 500"
    by (cases rt)
       (simp_all add: getUsers_def getUserByID_def createUser_def updateUser_def
          deleteUser_def Let_def ctx_defs split: sum.splits)
  have post: "Response (fst (handle POST_users ?bad out)) =
          (400, Some (marshal_ErrorResponse
             \<lparr>Error = ''Bad Request'', Message = ''Invalid JSON format''\<rparr>))"
    by (simp add: createUser_def BodyParser_def Unmarshal_def ctx_defs)
  have put: "Response (fst (handle PUT_users_id ?bad out)) =
          (400, Some (marshal_ErrorResponse
             \<lparr>Error = ''Bad Request'', Message = ''Invalid JSON format''\<rparr>))"
    by (simp add: updateUser_def Let_def BodyParser_def Unmarshal_def ctx_defs)
  have get: "Response (fst (handle GET_users_id ?bad out)) =
          (404, Some (marshal_ErrorResponse
             \<lparr>Error = ''Not Found'', Message = ''User not found''\<rparr>))"
    by (simp add: getUserByID_def ctx_defs)
  from kinds no500 post put get show ?thesis by blast
qed

end
